theory Spec2Isabelle
  imports Complex_Main "HOL-Library.Sublist" "HOL-Library.AList" "HOL-Library.Multiset"
begin

section \<open>Values, rows and errors\<close>

text \<open>
  The module works on dictionaries read from CSV files. A cell read from a file is a
  string; \<open>aggregate_by_player_id\<close> builds records whose summed cells are integers.
  Both kinds of cell are values of \<open>pyval\<close>, and a row is a finite map from column
  names to cells. The Field Map \<open>info\<close> maps role names to column names (the role
  \<open>battingfields\<close>, whose value is a list, is read by the career entry point only and
  is passed to the aggregator as its own argument).

  Exceptions are values of \<open>py_error\<close>; a function that may raise returns
  \<open>py_error + 'a\<close>. \<open>OutsideModel\<close> is not a Python exception: it marks the inputs on
  which the model of a builtin stops (see \<open>float_literal\<close>), and no theorem below
  derives a behaviour of the program from it.
\<close>

datatype py_error = KeyError | ValueError | ZeroDivisionError | TypeError | OSError | OutsideModel

datatype pyval = PyStr string | PyInt int

type_synonym row = "string \<rightharpoonup> pyval"

type_synonym info = "string \<rightharpoonup> string"

text \<open>Sequencing of steps that may raise: the first error ends the computation.\<close>

fun bnd :: "py_error + 'a \<Rightarrow> ('a \<Rightarrow> py_error + 'b) \<Rightarrow> py_error + 'b" where
  "bnd (Inl e) f = Inl e"
| "bnd (Inr v) f = f v"

text \<open>Subscription \<open>d[k]\<close> of a dictionary raises \<open>KeyError\<close> on a missing key.\<close>

definition getitem :: "('k \<rightharpoonup> 'v) \<Rightarrow> 'k \<Rightarrow> py_error + 'v" where
  "getitem d k = (case d k of None \<Rightarrow> Inl KeyError | Some v \<Rightarrow> Inr v)"

section \<open>The builtins \<open>int\<close> and \<open>float\<close> on cells\<close>

text \<open>
  \<open>int(s)\<close> and \<open>float(s)\<close> strip surrounding whitespace, read an optional sign and
  then a literal: digits, where single underscores may stand between digits, for
  \<open>int\<close>; for \<open>float\<close> a decimal number with an optional fraction and an optional
  exponent, or one of \<open>inf\<close>, \<open>infinity\<close>, \<open>nan\<close> in any letter case. Any other
  string raises \<open>ValueError\<close>.

  The model reads a literal as the exact number it denotes: a score is a rational,
  and the rounding of a value to the nearest double, overflow to infinity and
  underflow to zero are not modelled. The model stops with \<open>OutsideModel\<close> on the
  strings whose value is not a rational or whose reading depends on Unicode tables:
  \<open>inf\<close>, \<open>infinity\<close> and \<open>nan\<close>, strings with a character outside ASCII, and
  integer literals beyond the digit limit of \<open>int\<close> (4300 digits).
\<close>

definition is_digit :: "char \<Rightarrow> bool" where
  "is_digit c = (c \<in> set ''0123456789'')"

definition digit_val :: "char \<Rightarrow> nat" where
  "digit_val c = of_char c - 48"

definition is_space :: "char \<Rightarrow> bool" where
  "is_space c = (c \<in> set [CHR 0x09, CHR 0x0A, CHR 0x0B, CHR 0x0C, CHR 0x0D,
                           CHR 0x1C, CHR 0x1D, CHR 0x1E, CHR 0x1F, CHR '' ''])"

definition strip :: "string \<Rightarrow> string" where
  "strip s = rev (dropWhile is_space (rev (dropWhile is_space s)))"

definition non_ascii :: "string \<Rightarrow> bool" where
  "non_ascii s = list_ex (\<lambda>c. (128::nat) \<le> of_char c) s"

definition to_lower :: "char \<Rightarrow> char" where
  "to_lower c = (case map_of (zip ''ABCDEFGHIJKLMNOPQRSTUVWXYZ'' ''abcdefghijklmnopqrstuvwxyz'') c of
       None \<Rightarrow> c | Some d \<Rightarrow> d)"

text \<open>The digits after the first one of a digit part, and the rest of the string.\<close>

fun digits_tail :: "string \<Rightarrow> nat list \<times> string" where
  "digits_tail [] = ([], [])"
| "digits_tail (c # cs) =
     (if is_digit c then (case digits_tail cs of (ds, r) \<Rightarrow> (digit_val c # ds, r))
      else if c = CHR ''_'' then
        (case cs of
           [] \<Rightarrow> ([], c # cs)
         | d # cs' \<Rightarrow>
             if is_digit d then (case digits_tail cs' of (ds, r) \<Rightarrow> (digit_val d # ds, r))
             else ([], c # cs))
      else ([], c # cs))"

definition digitpart :: "string \<Rightarrow> (nat list \<times> string) option" where
  "digitpart s =
     (case s of
        [] \<Rightarrow> None
      | c # cs \<Rightarrow>
          if is_digit c then (case digits_tail cs of (ds, r) \<Rightarrow> Some (digit_val c # ds, r))
          else None)"

definition nat_of_digits :: "nat list \<Rightarrow> nat" where
  "nat_of_digits ds = foldl (\<lambda>a d. 10 * a + d) 0 ds"

definition split_sign :: "string \<Rightarrow> bool \<times> string" where
  "split_sign s =
     (case s of
        [] \<Rightarrow> (False, [])
      | c # cs \<Rightarrow>
          if c = CHR ''-'' then (True, cs)
          else if c = CHR ''+'' then (False, cs)
          else (False, s))"

definition int_literal :: "string \<Rightarrow> py_error + int" where
  "int_literal s =
     (if non_ascii s then Inl OutsideModel
      else case split_sign (strip s) of (neg, u) \<Rightarrow>
        (case digitpart u of
           Some (ds, []) \<Rightarrow>
             if 4300 < length ds then Inl OutsideModel
             else Inr (if neg then - int (nat_of_digits ds) else int (nat_of_digits ds))
         | _ \<Rightarrow> Inl ValueError))"

text \<open>The number before the exponent: \<open>12\<close>, \<open>12.\<close>, \<open>12.5\<close> or \<open>.5\<close>.\<close>

definition number :: "string \<Rightarrow> (rat \<times> string) option" where
  "number u =
     (case digitpart u of
        Some (ds, r) \<Rightarrow>
          (case r of
             [] \<Rightarrow> Some (of_nat (nat_of_digits ds), [])
           | c # r' \<Rightarrow>
               if c = CHR ''.'' then
                 (case digitpart r' of
                    None \<Rightarrow> Some (of_nat (nat_of_digits ds), r')
                  | Some (fs, r'') \<Rightarrow>
                      Some (of_nat (nat_of_digits ds)
                            + of_nat (nat_of_digits fs) / 10 ^ length fs, r''))
               else Some (of_nat (nat_of_digits ds), r))
      | None \<Rightarrow>
          (case u of
             [] \<Rightarrow> None
           | c # r' \<Rightarrow>
               if c = CHR ''.'' then
                 (case digitpart r' of
                    None \<Rightarrow> None
                  | Some (fs, r'') \<Rightarrow> Some (of_nat (nat_of_digits fs) / 10 ^ length fs, r''))
               else None))"

text \<open>The exponent, which must end the string; no exponent is the exponent 0.\<close>

definition exponent :: "string \<Rightarrow> int option" where
  "exponent r =
     (case r of
        [] \<Rightarrow> Some 0
      | c # r' \<Rightarrow>
          if c = CHR ''e'' \<or> c = CHR ''E'' then
            (case split_sign r' of (neg, r'') \<Rightarrow>
               (case digitpart r'' of
                  Some (es, []) \<Rightarrow>
                    Some (if neg then - int (nat_of_digits es) else int (nat_of_digits es))
                | _ \<Rightarrow> None))
          else None)"

definition scale10 :: "rat \<Rightarrow> int \<Rightarrow> rat" where
  "scale10 x e = (if 0 \<le> e then x * 10 ^ nat e else x / 10 ^ nat (- e))"

definition float_literal :: "string \<Rightarrow> py_error + rat" where
  "float_literal s =
     (if non_ascii s then Inl OutsideModel
      else case split_sign (strip s) of (neg, u) \<Rightarrow>
        if map to_lower u \<in> set [''inf'', ''infinity'', ''nan''] then Inl OutsideModel
        else
          (case number u of
             None \<Rightarrow> Inl ValueError
           | Some (m, r) \<Rightarrow>
               (case exponent r of
                  None \<Rightarrow> Inl ValueError
                | Some e \<Rightarrow> Inr (scale10 (if neg then - m else m) e))))"


fun py_float :: "pyval \<Rightarrow> py_error + rat" where
  "py_float (PyStr s) = float_literal s"
| "py_float (PyInt i) = Inr (of_int i)"

text \<open>True division of floats raises \<open>ZeroDivisionError\<close> on a zero divisor.\<close>

definition py_div :: "rat \<Rightarrow> rat \<Rightarrow> py_error + rat" where
  "py_div a b = (if b = 0 then Inl ZeroDivisionError else Inr (a / b))"

section \<open>Metric formulas\<close>

definition MINIMUM_AB :: rat where
  "MINIMUM_AB = 500"

text \<open>
  \<open>float(batting_stats[info[role]])\<close>: the role is looked up in the Field Map, the
  column in the row, and the cell is converted, in this order.
\<close>

definition stat_float :: "info \<Rightarrow> row \<Rightarrow> string \<Rightarrow> py_error + rat" where
  "stat_float info batting_stats role =
     bnd (getitem info role) (\<lambda>col. bnd (getitem batting_stats col) py_float)"

definition batting_average :: "info \<Rightarrow> row \<Rightarrow> py_error + rat" where
  "batting_average info batting_stats =
     bnd (stat_float info batting_stats ''hits'') (\<lambda>hits.
     bnd (stat_float info batting_stats ''atbats'') (\<lambda>at_bats.
     if at_bats \<ge> MINIMUM_AB then py_div hits at_bats else Inr 0))"



section \<open>Year filter\<close>



section \<open>Ranker\<close>

type_synonym formula = "info \<Rightarrow> row \<Rightarrow> py_error + rat"

type_synonym scored = "pyval \<times> rat"

text \<open>The scoring loop: the formula is applied before the identifier is read.\<close>

fun score_loop :: "info \<Rightarrow> formula \<Rightarrow> string \<Rightarrow> scored list \<Rightarrow> row list \<Rightarrow> py_error + scored list" where
  "score_loop info formula pid_field scored [] = Inr scored"
| "score_loop info formula pid_field scored (stat # rest) =
     bnd (formula info stat) (\<lambda>score.
     bnd (getitem stat pid_field) (\<lambda>pid.
     score_loop info formula pid_field (scored @ [(pid, score)]) rest))"

text \<open>
  \<open>scored.sort(key=lambda x: x[1], reverse=True)\<close>: the builtin sort is stable, and
  with \<open>reverse=True\<close> it sorts as if every comparison were reversed, which keeps
  entries of equal key in their original order. On rational scores this is the stable
  insertion sort \<open>sort_key\<close> on the negated score.
\<close>

definition sort_descending :: "scored list \<Rightarrow> scored list" where
  "sort_descending scored = sort_key (\<lambda>x. - snd x) scored"

text \<open>The slice \<open>xs[:n]\<close>: a negative \<open>n\<close> counts from the end of the list.\<close>

definition slice_to :: "'a list \<Rightarrow> int \<Rightarrow> 'a list" where
  "slice_to xs n = (if n < 0 then take (nat (int (length xs) + n)) xs else take (nat n) xs)"

definition top_player_ids :: "info \<Rightarrow> row list \<Rightarrow> formula \<Rightarrow> int \<Rightarrow> py_error + scored list" where
  "top_player_ids info statistics formula numplayers =
     bnd (getitem info ''playerid'') (\<lambda>pid_field.
     bnd (score_loop info formula pid_field [] statistics) (\<lambda>scored.
     Inr (slice_to (sort_descending scored) numplayers)))"

section \<open>Table loader and name resolver\<close>

text \<open>
  \<open>csv.DictReader\<close> over an opened file is outside the module: a \<open>csv_source\<close>
  gives, for a file name, a separator and a quote character, the rows the reader
  yields, or the error of opening or reading the file.
\<close>

type_synonym csv_source = "string \<Rightarrow> string \<Rightarrow> string \<Rightarrow> py_error + row list"

definition read_csv_as_list_dict :: "csv_source \<Rightarrow> string \<Rightarrow> string \<Rightarrow> string \<Rightarrow> py_error + row list" where
  "read_csv_as_list_dict src filename separator quote = src filename separator quote"

fun nested_loop :: "string \<Rightarrow> (pyval \<rightharpoonup> row) \<Rightarrow> row list \<Rightarrow> py_error + (pyval \<rightharpoonup> row)" where
  "nested_loop keyfield table [] = Inr table"
| "nested_loop keyfield table (r # rest) =
     bnd (getitem r keyfield) (\<lambda>k. nested_loop keyfield (table(k \<mapsto> r)) rest)"

definition read_csv_as_nested_dict ::
  "csv_source \<Rightarrow> string \<Rightarrow> string \<Rightarrow> string \<Rightarrow> string \<Rightarrow> py_error + (pyval \<rightharpoonup> row)" where
  "read_csv_as_nested_dict src filename keyfield separator quote =
     bnd (src filename separator quote) (nested_loop keyfield Map.empty)"

text \<open>Decimal digits of a natural number, and \<open>str\<close> of a cell.\<close>

definition digit_char :: "nat \<Rightarrow> char" where
  "digit_char d = ''0123456789'' ! d"

function digits_of :: "nat \<Rightarrow> string" where
  "digits_of n = (if n < 10 then [digit_char n] else digits_of (n div 10) @ [digit_char (n mod 10)])"
  by pat_completeness auto
termination
  by (relation "measure id") auto

declare digits_of.simps [simp del]

fun py_str :: "pyval \<Rightarrow> string" where
  "py_str (PyStr s) = s"
| "py_str (PyInt i) = (if i < 0 then ''-'' else []) @ digits_of (nat \<bar>i\<bar>)"

text \<open>
  The format \<open>.3f\<close>: the value rounded to a multiple of 1/1000, a tie going to the
  even neighbour, written with its sign, its integer part, a point and three digits.
\<close>

definition round_half_even :: "rat \<Rightarrow> int" where
  "round_half_even x =
     (let q = \<lfloor>x\<rfloor>; f = x - of_int q
      in if f < 1 / 2 then q else if 1 / 2 < f then q + 1 else if even q then q else q + 1)"

definition format_3f :: "rat \<Rightarrow> string" where
  "format_3f x =
     (let m = nat (round_half_even (\<bar>x\<bar> * 1000))
      in (if x < 0 then ''-'' else []) @ digits_of (m div 1000) @ ''.'' @
         [digit_char (m div 100 mod 10), digit_char (m div 10 mod 10), digit_char (m mod 10)])"

fun names_loop :: "info \<Rightarrow> (pyval \<rightharpoonup> row) \<Rightarrow> string list \<Rightarrow> scored list \<Rightarrow> py_error + string list" where
  "names_loop info master result [] = Inr result"
| "names_loop info master result ((pid, stat) # rest) =
     bnd (getitem master pid) (\<lambda>rec1.
     bnd (getitem info ''firstname'') (\<lambda>first_col.
     bnd (getitem rec1 first_col) (\<lambda>name_first.
     bnd (getitem master pid) (\<lambda>rec2.
     bnd (getitem info ''lastname'') (\<lambda>last_col.
     bnd (getitem rec2 last_col) (\<lambda>name_last.
     names_loop info master
       (result @ [format_3f stat @ '' --- '' @ py_str name_first @ '' '' @ py_str name_last])
       rest))))))"

definition lookup_player_names :: "csv_source \<Rightarrow> info \<Rightarrow> scored list \<Rightarrow> py_error + string list" where
  "lookup_player_names src info top_ids_and_stats =
     bnd (getitem info ''masterfile'') (\<lambda>masterfile.
     bnd (getitem info ''playerid'') (\<lambda>keyfield.
     bnd (getitem info ''separator'') (\<lambda>separator.
     bnd (getitem info ''quote'') (\<lambda>quote.
     bnd (read_csv_as_nested_dict src masterfile keyfield separator quote) (\<lambda>master.
     names_loop info master [] top_ids_and_stats)))))"

section \<open>Aggregator\<close>







section \<open>Notions used in the statements\<close>





text \<open>A Field Map and batting rows in the column names of the Lahman tables.\<close>

definition ex_info :: info where
  "ex_info = [''hits'' \<mapsto> ''H'', ''atbats'' \<mapsto> ''AB'', ''walks'' \<mapsto> ''BB'',
     ''doubles'' \<mapsto> ''2B'', ''triples'' \<mapsto> ''3B'', ''homeruns'' \<mapsto> ''HR'',
     ''playerid'' \<mapsto> ''playerID'', ''yearid'' \<mapsto> ''yearID'',
     ''firstname'' \<mapsto> ''nameFirst'', ''lastname'' \<mapsto> ''nameLast'',
     ''masterfile'' \<mapsto> ''Master.csv'', ''separator'' \<mapsto> '','', ''quote'' \<mapsto> [CHR 0x22]]"

definition ex_row :: "string \<Rightarrow> string \<Rightarrow> string \<Rightarrow> string \<Rightarrow> string \<Rightarrow> string \<Rightarrow> string \<Rightarrow> string \<Rightarrow> row" where
  "ex_row pid year ab h bb d t hr =
     [''playerID'' \<mapsto> PyStr pid, ''yearID'' \<mapsto> PyStr year, ''AB'' \<mapsto> PyStr ab,
      ''H'' \<mapsto> PyStr h, ''BB'' \<mapsto> PyStr bb, ''2B'' \<mapsto> PyStr d, ''3B'' \<mapsto> PyStr t,
      ''HR'' \<mapsto> PyStr hr]"


definition row_entry :: "info \<Rightarrow> formula \<Rightarrow> string \<Rightarrow> row \<Rightarrow> scored option" where
  "row_entry info formula pid_field stat =
     (case formula info stat of
        Inl e \<Rightarrow> None
      | Inr score \<Rightarrow> (case stat pid_field of None \<Rightarrow> None | Some pid \<Rightarrow> Some (pid, score)))"

definition ex_rows :: "row list" where
  "ex_rows = [ex_row ''p1'' ''2001'' ''600'' ''200'' ''0'' ''0'' ''0'' ''0'',
              ex_row ''p2'' ''2002'' ''400'' ''300'' ''0'' ''0'' ''0'' ''0'',
              ex_row ''p3'' ''2001'' ''600'' ''200'' ''0'' ''0'' ''0'' ''0'',
              ex_row ''p4'' '' 2001 '' ''500'' ''200'' ''0'' ''0'' ''0'' ''0'']"


definition ex_master_rows :: "row list" where
  "ex_master_rows =
     [[''playerID'' \<mapsto> PyStr ''p1'', ''nameFirst'' \<mapsto> PyStr ''Ann'', ''nameLast'' \<mapsto> PyStr ''Lee''],
      [''playerID'' \<mapsto> PyStr ''p4'', ''nameFirst'' \<mapsto> PyStr ''Bo'', ''nameLast'' \<mapsto> PyStr ''Diaz'']]"

definition ex_src :: csv_source where
  "ex_src filename separator quote =
     (if filename = ''Master.csv'' then Inr ex_master_rows else Inl OSError)"


definition ex_src_short :: csv_source where
  "ex_src_short filename separator quote =
     (if filename = ''Master.csv''
      then Inr [[''playerID'' \<mapsto> PyStr ''p1'', ''nameLast'' \<mapsto> PyStr ''Lee'']]
      else Inl OSError)"

definition in_table :: "csv_source \<Rightarrow> info \<Rightarrow> pyval \<Rightarrow> bool" where
  "in_table src info pid =
     (case (info ''masterfile'', info ''playerid'', info ''separator'', info ''quote'') of
        (Some mf, Some kf, Some sep, Some q) \<Rightarrow>
          (case read_csv_as_nested_dict src mf kf sep q of
             Inl e \<Rightarrow> False
           | Inr master \<Rightarrow> master pid \<noteq> None)
      | _ \<Rightarrow> False)"











section \<open>Basic facts\<close>

lemma bnd_eq_Inr: "bnd x f = Inr y \<longleftrightarrow> (\<exists>v. x = Inr v \<and> f v = Inr y)"
  by (cases x) auto

lemma bnd_eq_Inl: "bnd x f = Inl e \<longleftrightarrow> x = Inl e \<or> (\<exists>v. x = Inr v \<and> f v = Inl e)"
  by (cases x) auto

lemmas literal_defs =
  float_literal_def int_literal_def non_ascii_def strip_def is_space_def split_sign_def
  to_lower_def number_def digitpart_def is_digit_def digit_val_def nat_of_digits_def
  exponent_def scale10_def

lemmas ex_defs = ex_info_def ex_row_def stat_float_def getitem_def

lemma stat_float_Inr:
  "stat_float info st role = Inr x \<longleftrightarrow>
     (\<exists>col cell. info role = Some col \<and> st col = Some cell \<and> py_float cell = Inr x)"
  by (auto simp: stat_float_def getitem_def split: option.splits)

lemma stat_float_Inl:
  "stat_float info st role = Inl e \<longleftrightarrow>
     (info role = None \<and> e = KeyError) \<or>
     (\<exists>col. info role = Some col \<and> st col = None \<and> e = KeyError) \<or>
     (\<exists>col cell. info role = Some col \<and> st col = Some cell \<and> py_float cell = Inl e)"
  by (auto simp: stat_float_def getitem_def split: option.splits)




section \<open>Metric formulas: threshold, sign and order of evaluation\<close>















section \<open>Year filter\<close>





section \<open>Ranker\<close>

lemma score_loop_Inr:
  "score_loop info formula pf acc stats = Inr scored \<longleftrightarrow>
     (\<exists>es. map (row_entry info formula pf) stats = map Some es \<and> scored = acc @ es)"
proof (induction stats arbitrary: acc)
  case Nil
  then show ?case by auto
next
  case (Cons stat rest)
  show ?case
  proof (cases "row_entry info formula pf stat")
    case None
    then have "score_loop info formula pf acc (stat # rest) \<noteq> Inr scored"
      by (auto simp: row_entry_def getitem_def bnd_eq_Inr split: sum.splits option.splits)
    with None show ?thesis by (auto simp: map_eq_Cons_conv)
  next
    case (Some e)
    then have "score_loop info formula pf acc (stat # rest) = score_loop info formula pf (acc @ [e]) rest"
      by (auto simp: row_entry_def getitem_def split: sum.splits option.splits)
    with Some Cons.IH[of "acc @ [e]"] show ?thesis
      by (auto simp: map_eq_Cons_conv Cons_eq_map_conv)
  qed
qed

lemma top_player_ids_Inr:
  "top_player_ids info statistics formula n = Inr ranked \<longleftrightarrow>
     (\<exists>pf scored. info ''playerid'' = Some pf \<and>
        map (row_entry info formula pf) statistics = map Some scored \<and>
        ranked = slice_to (sort_descending scored) n)"
  by (auto simp: top_player_ids_def getitem_def bnd_eq_Inr score_loop_Inr split: option.splits)






text \<open>The four example rows ranked by batting average.\<close>

lemma ex_top:
  "top_player_ids ex_info ex_rows batting_average n =
     Inr (slice_to [(PyStr ''p4'', 2 / 5), (PyStr ''p1'', 1 / 3), (PyStr ''p3'', 1 / 3), (PyStr ''p2'', 0)] n)"
  by (simp add: top_player_ids_def ex_rows_def batting_average_def MINIMUM_AB_def py_div_def
      sort_descending_def ex_defs literal_defs)



lemma length_sort_descending: "length (sort_descending scored) = length scored"
  by (simp add: sort_descending_def)

lemma mset_sort_descending: "mset (sort_descending scored) = mset scored"
  by (simp add: sort_descending_def)

text \<open>
  Claim C3. For a count \<open>N \<ge> 0\<close> the list returned has min(N, number of rows)
  entries: none for \<open>N = 0\<close>, and every scored entry once when \<open>N\<close> is at least
  the number of rows.
\<close>

theorem top_player_ids_length:
  assumes "top_player_ids info statistics formula numplayers = Inr ranked" and "0 \<le> numplayers"
  shows "length ranked = min (nat numplayers) (length statistics) \<and>
         (numplayers = 0 \<longrightarrow> ranked = []) \<and>
         (int (length statistics) \<le> numplayers \<longrightarrow>
            (\<exists>pid_field scored. info ''playerid'' = Some pid_field \<and>
               map (row_entry info formula pid_field) statistics = map Some scored \<and>
               mset ranked = mset scored))"
proof -
  from assms(1) obtain pf scored where pf: "info ''playerid'' = Some pf"
    and sc: "map (row_entry info formula pf) statistics = map Some scored"
    and r: "ranked = slice_to (sort_descending scored) numplayers"
    by (auto simp: top_player_ids_Inr)
  from sc have len: "length scored = length statistics" by (metis length_map)
  from assms(2) have r': "ranked = take (nat numplayers) (sort_descending scored)"
    by (simp add: r slice_to_def)
  have "length ranked = min (nat numplayers) (length statistics)"
    by (simp add: r' length_sort_descending len min.commute)
  moreover have "numplayers = 0 \<longrightarrow> ranked = []" by (simp add: r')
  moreover have "mset ranked = mset scored" if "int (length statistics) \<le> numplayers"
    using that by (simp add: r' length_sort_descending len mset_sort_descending)
  ultimately show ?thesis using pf sc by blast
qed

theorem top_player_ids_length_witness:
  "top_player_ids ex_info ex_rows batting_average 10 =
     Inr [(PyStr ''p4'', 2 / 5), (PyStr ''p1'', 1 / 3), (PyStr ''p3'', 1 / 3), (PyStr ''p2'', 0)]
   \<and> length [(PyStr ''p4'', 2 / 5 :: rat), (PyStr ''p1'', 1 / 3), (PyStr ''p3'', 1 / 3), (PyStr ''p2'', 0)]
       = min (nat 10) (length ex_rows)"
  using top_player_ids_length[of ex_info ex_rows batting_average 10
      "[(PyStr ''p4'', 2 / 5), (PyStr ''p1'', 1 / 3), (PyStr ''p3'', 1 / 3), (PyStr ''p2'', 0)]"]
  by (simp add: ex_top slice_to_def)

text \<open>
  Claim C9. For a count \<open>N < 0\<close> the slice drops the last \<open>|N|\<close> entries of the
  sorted list: the result is its first (number of rows - \<open>|N|\<close>) entries, and it is not
  empty when there are more than \<open>|N|\<close> rows.
\<close>

theorem top_player_ids_negative_count:
  assumes "top_player_ids info statistics formula numplayers = Inr ranked" and "numplayers < 0"
  shows "\<exists>pid_field scored. info ''playerid'' = Some pid_field \<and>
           map (row_entry info formula pid_field) statistics = map Some scored \<and>
           ranked = take (length statistics - nat (- numplayers)) (sort_descending scored) \<and>
           length ranked = length statistics - nat (- numplayers) \<and>
           (nat (- numplayers) < length statistics \<longrightarrow> ranked \<noteq> [])"
proof -
  from assms(1) obtain pf scored where pf: "info ''playerid'' = Some pf"
    and sc: "map (row_entry info formula pf) statistics = map Some scored"
    and r: "ranked = slice_to (sort_descending scored) numplayers"
    by (auto simp: top_player_ids_Inr)
  from sc have len: "length scored = length statistics" by (metis length_map)
  have eq: "nat (int (length statistics) + numplayers) = length statistics - nat (- numplayers)"
    using assms(2) by linarith
  from assms(2) have r': "ranked = take (length statistics - nat (- numplayers)) (sort_descending scored)"
    by (simp add: r slice_to_def length_sort_descending len eq)
  have l: "length ranked = length statistics - nat (- numplayers)"
    by (simp add: r' length_sort_descending len)
  have "nat (- numplayers) < length statistics \<longrightarrow> ranked \<noteq> []"
    using l by auto
  with pf sc r' l show ?thesis by blast
qed

theorem top_player_ids_negative_count_witness:
  "top_player_ids ex_info ex_rows batting_average (- 1) =
     Inr [(PyStr ''p4'', 2 / 5), (PyStr ''p1'', 1 / 3), (PyStr ''p3'', 1 / 3)]
   \<and> [(PyStr ''p4'', 2 / 5 :: rat), (PyStr ''p1'', 1 / 3), (PyStr ''p3'', 1 / 3)] \<noteq> []"
  using top_player_ids_negative_count[of ex_info ex_rows batting_average "- 1"
      "[(PyStr ''p4'', 2 / 5), (PyStr ''p1'', 1 / 3), (PyStr ''p3'', 1 / 3)]"]
  by (simp add: ex_top slice_to_def)

section \<open>Name resolver\<close>







lemma names_loop_ok:
  assumes "info ''firstname'' = Some fc" "info ''lastname'' = Some lc"
    and "\<forall>e\<in>set ranked. \<exists>rec. master (fst e) = Some rec \<and> rec fc \<noteq> None \<and> rec lc \<noteq> None"
  shows "\<exists>out. names_loop info master acc ranked = Inr (acc @ out) \<and>
           list_all2 (\<lambda>e text. \<exists>rec f l. master (fst e) = Some rec \<and> rec fc = Some f \<and>
                        rec lc = Some l \<and>
                        text = format_3f (snd e) @ '' --- '' @ py_str f @ '' '' @ py_str l)
             ranked out"
  using assms(3)
proof (induction ranked arbitrary: acc)
  case Nil
  then show ?case by simp
next
  case (Cons e rest)
  obtain pid stat where e: "e = (pid, stat)" by (cases e)
  from Cons.prems e obtain rec f l where r: "master pid = Some rec" "rec fc = Some f" "rec lc = Some l"
    by auto
  let ?text = "format_3f stat @ '' --- '' @ py_str f @ '' '' @ py_str l"
  from Cons.prems have "\<forall>e\<in>set rest. \<exists>rec. master (fst e) = Some rec \<and> rec fc \<noteq> None \<and> rec lc \<noteq> None"
    by simp
  from Cons.IH[OF this, of "acc @ [?text]"] obtain out where
    out: "names_loop info master (acc @ [?text]) rest = Inr (acc @ [?text] @ out)"
    and all: "list_all2 (\<lambda>e text. \<exists>rec f l. master (fst e) = Some rec \<and> rec fc = Some f \<and>
                        rec lc = Some l \<and>
                        text = format_3f (snd e) @ '' --- '' @ py_str f @ '' '' @ py_str l)
             rest out"
    by auto
  have "names_loop info master acc (e # rest) = Inr (acc @ (?text # out))"
    using out r assms(1,2) by (simp add: e getitem_def)
  moreover have "list_all2 (\<lambda>e text. \<exists>rec f l. master (fst e) = Some rec \<and> rec fc = Some f \<and>
                        rec lc = Some l \<and>
                        text = format_3f (snd e) @ '' --- '' @ py_str f @ '' '' @ py_str l)
             (e # rest) (?text # out)"
    using all r by (simp add: e)
  ultimately show ?case by blast
qed

lemma names_loop_absent:
  assumes "info ''firstname'' = Some fc" "info ''lastname'' = Some lc"
    and "\<forall>rec\<in>ran master. rec fc \<noteq> None \<and> rec lc \<noteq> None"
    and "\<exists>e\<in>set ranked. master (fst e) = None"
  shows "names_loop info master acc ranked = Inl KeyError"
  using assms(4)
proof (induction ranked arbitrary: acc)
  case Nil
  then show ?case by simp
next
  case (Cons e rest)
  obtain pid stat where e: "e = (pid, stat)" by (cases e)
  show ?case
  proof (cases "master pid")
    case None
    then show ?thesis by (simp add: e getitem_def)
  next
    case (Some rec)
    with assms(3) obtain f l where "rec fc = Some f" "rec lc = Some l"
      by (auto simp: ran_def)
    moreover from Cons.prems Some e have "\<exists>e\<in>set rest. master (fst e) = None" by auto
    ultimately show ?thesis
      using Cons.IH Some assms(1,2) by (simp add: e getitem_def)
  qed
qed

lemma lookup_player_names_loaded:
  assumes "info ''masterfile'' = Some mf" "info ''playerid'' = Some kf"
    "info ''separator'' = Some sep" "info ''quote'' = Some q"
    and "read_csv_as_nested_dict src mf kf sep q = Inr master"
  shows "lookup_player_names src info ranked = names_loop info master [] ranked"
  using assms by (simp add: lookup_player_names_def getitem_def)

lemma ex_master:
  "read_csv_as_nested_dict ex_src ''Master.csv'' ''playerID'' '','' [CHR 0x22] =
     Inr [PyStr ''p1'' \<mapsto> [''playerID'' \<mapsto> PyStr ''p1'', ''nameFirst'' \<mapsto> PyStr ''Ann'',
                            ''nameLast'' \<mapsto> PyStr ''Lee''],
          PyStr ''p4'' \<mapsto> [''playerID'' \<mapsto> PyStr ''p4'', ''nameFirst'' \<mapsto> PyStr ''Bo'',
                            ''nameLast'' \<mapsto> PyStr ''Diaz'']]"
  by (simp add: read_csv_as_nested_dict_def ex_src_def ex_master_rows_def getitem_def)




text \<open>
  Claim C8, as the code has it. When the Field Map has the roles read by the resolver,
  the master file loads and every record of the table carries the two name columns,
  \<open>lookup_player_names\<close> raises \<open>KeyError\<close> exactly when an identifier of the
  ranked list is not a key of the table, and returns one string per entry otherwise.
\<close>

theorem lookup_player_names_keyerror:
  assumes "info ''masterfile'' = Some mf" "info ''playerid'' = Some kf"
    "info ''separator'' = Some sep" "info ''quote'' = Some q"
    "info ''firstname'' = Some fc" "info ''lastname'' = Some lc"
    and "read_csv_as_nested_dict src mf kf sep q = Inr master"
    and "\<forall>rec\<in>ran master. rec fc \<noteq> None \<and> rec lc \<noteq> None"
  shows "(lookup_player_names src info ranked = Inl KeyError \<longleftrightarrow>
            (\<exists>e\<in>set ranked. master (fst e) = None))
       \<and> ((\<forall>e\<in>set ranked. master (fst e) \<noteq> None) \<longrightarrow>
            (\<exists>out. lookup_player_names src info ranked = Inr out \<and> length out = length ranked))"
proof -
  note eq = lookup_player_names_loaded[OF assms(1-4,7), of ranked]
  have present: "\<exists>out. lookup_player_names src info ranked = Inr out \<and> length out = length ranked"
    if "\<forall>e\<in>set ranked. master (fst e) \<noteq> None"
  proof -
    from that assms(8)
    have "\<forall>e\<in>set ranked. \<exists>rec. master (fst e) = Some rec \<and> rec fc \<noteq> None \<and> rec lc \<noteq> None"
      by (simp add: ran_def) (metis fst_conv)
    from names_loop_ok[OF assms(5,6) this, of "[]"] show ?thesis
      by (auto simp: eq dest: list_all2_lengthD)
  qed
  have absent: "lookup_player_names src info ranked = Inl KeyError"
    if "\<exists>e\<in>set ranked. master (fst e) = None"
    using names_loop_absent[OF assms(5,6,8) that] by (simp add: eq)
  from present absent show ?thesis by (metis Inl_Inr_False)
qed

theorem lookup_player_names_keyerror_witness:
  "lookup_player_names ex_src ex_info [(PyStr ''p4'', 2 / 5), (PyStr ''p2'', 1 / 3)] = Inl KeyError
   \<and> in_table ex_src ex_info (PyStr ''p4'') \<and> \<not> in_table ex_src ex_info (PyStr ''p2'')"
proof -
  have roles: "ex_info ''masterfile'' = Some ''Master.csv''" "ex_info ''playerid'' = Some ''playerID''"
    "ex_info ''separator'' = Some '',''" "ex_info ''quote'' = Some [CHR 0x22]"
    "ex_info ''firstname'' = Some ''nameFirst''" "ex_info ''lastname'' = Some ''nameLast''"
    by (simp_all add: ex_info_def)
  have cols: "\<forall>rec\<in>ran [PyStr ''p1'' \<mapsto> [''playerID'' \<mapsto> PyStr ''p1'', ''nameFirst'' \<mapsto> PyStr ''Ann'',
                            ''nameLast'' \<mapsto> PyStr ''Lee''],
          PyStr ''p4'' \<mapsto> [''playerID'' \<mapsto> PyStr ''p4'', ''nameFirst'' \<mapsto> PyStr ''Bo'',
                            ''nameLast'' \<mapsto> PyStr ''Diaz'']].
      rec ''nameFirst'' \<noteq> None \<and> rec ''nameLast'' \<noteq> None"
    by (auto simp: ran_def split: if_splits)
  have "lookup_player_names ex_src ex_info [(PyStr ''p4'', 2 / 5), (PyStr ''p2'', 1 / 3)] = Inl KeyError"
    using lookup_player_names_keyerror[OF roles ex_master cols,
        of "[(PyStr ''p4'', 2 / 5), (PyStr ''p2'', 1 / 3)]"]
    by simp
  moreover have "in_table ex_src ex_info (PyStr ''p4'') \<and> \<not> in_table ex_src ex_info (PyStr ''p2'')"
    by (simp add: in_table_def ex_info_def ex_master)
  ultimately show ?thesis by blast
qed

text \<open>
  Claim C8 as stated fails when the master file has no column for the first name: no
  identifier is absent from the table, and the resolver raises \<open>KeyError\<close>.
\<close>

theorem lookup_player_names_keyerror_counterexample:
  "in_table ex_src_short ex_info (PyStr ''p1'')
   \<and> lookup_player_names ex_src_short ex_info [(PyStr ''p1'', 1 / 3)] = Inl KeyError"
  by (simp add: in_table_def ex_info_def lookup_player_names_def read_csv_as_nested_dict_def
        ex_src_short_def getitem_def)

section \<open>Aggregator\<close>










lemma update_absent: "k \<notin> fst ` set al \<Longrightarrow> AList.update k v al = al @ [(k, v)]"
  by (induction al) auto







end
